theory Spec2Isabelle
  imports Main "HOL-Library.Word"
begin

section \<open>The sketch \<^verbatim>\<open>hardware.ino\<close>: an HTTP front end for an infrared fan remote\<close>

text \<open>
  The sketch owns one bit of state, \<open>isFanOn\<close>, and talks to three library objects:
  the serial port, the infrared sender \<open>irsend\<close> and the web server \<open>server\<close>.
  Every call into one of these objects is recorded, in program order, as an
  \<open>event\<close>; a handler is a function from the world before the call to the world
  after it.
\<close>

subsection \<open>Constants\<close>

definition ssid :: string where
  "ssid = ''Xander''"

definition password :: string where
  "password = ''e9c7uekd''"

definition kIrLedPin :: "16 word" where
  "kIrLedPin = 5"

definition IR_BITS :: "8 word" where
  "IR_BITS = 24"

definition IR_CODE_TOGGLE_FAN :: "32 word" where
  "IR_CODE_TOGGLE_FAN = 0x80C0C0"

definition IR_CODE_ADD_POWER :: "32 word" where
  "IR_CODE_ADD_POWER = 0x80B0B0"

definition IR_CODE_LOWER_POWER :: "32 word" where
  "IR_CODE_LOWER_POWER = 0x808888"

subsection \<open>Library types the sketch uses\<close>

text \<open>
  The enumerations below are declared by the libraries, not by the sketch.
  The sketch mentions \<open>MIDEA24\<close>, \<open>WL_CONNECTED\<close>, \<open>HTTP_GET\<close> and
  \<open>HTTP_POST\<close> only; the other members stand for the values the sketch never
  names.
\<close>

datatype decode_type_t = UNKNOWN | NEC | MIDEA | MIDEA24

datatype wl_status_t =
    WL_IDLE_STATUS | WL_NO_SSID_AVAIL | WL_SCAN_COMPLETED | WL_CONNECTED
  | WL_CONNECT_FAILED | WL_CONNECTION_LOST | WL_WRONG_PASSWORD | WL_DISCONNECTED

datatype HTTPMethod =
    HTTP_ANY | HTTP_GET | HTTP_HEAD | HTTP_POST | HTTP_PUT | HTTP_PATCH
  | HTTP_DELETE | HTTP_OPTIONS

text \<open>A function pointer passed to \<open>server.on\<close> names one of the five handlers.\<close>

datatype handler =
    HandleRoot | HandleToggle | HandleSetState | HandleSendAddPower
  | HandleSendLowerPower

subsection \<open>Events and the world\<close>

datatype printf_arg = ArgU32 "32 word" | ArgU8 "8 word" | ArgStr string

text \<open>
  One constructor per library call the sketch makes. \<open>ServerSend\<close> is the
  three-argument call \<open>server.send(code, content_type, content)\<close>,
  \<open>ServerSendCode\<close> the one-argument call \<open>server.send(code)\<close>.
\<close>

datatype event =
    SerialBegin nat
  | SerialPrint string
  | SerialPrintln string
  | SerialPrintf string "printf_arg list"
  | SerialPrintlnLocalIP
  | Delay nat
  | IrBegin "16 word"
  | IrSend decode_type_t "32 word" "8 word"
  | WiFiBegin string string
  | ServerOn string HTTPMethod handler
  | ServerBegin
  | ServerSendHeader string string
  | ServerSend int string string
  | ServerSendCode int

text \<open>
  \<open>server_args\<close> are the arguments of the request the server is currently
  serving, in the order received; \<open>routes\<close> is the server's handler table in
  registration order; \<open>effects\<close> is the record of library calls, oldest first.
\<close>

record world =
  isFanOn :: bool
  server_args :: "(string \<times> string) list"
  routes :: "(string \<times> HTTPMethod \<times> handler) list"
  effects :: "event list"

definition emit :: "event \<Rightarrow> world \<Rightarrow> world" where
  "emit e w = w\<lparr>effects := effects w @ [e]\<rparr>"

text \<open>
  The globals as constructed before \<open>setup\<close> runs: \<open>isFanOn = false\<close>, a
  server with no handler and no request.
\<close>

definition initial_world :: world where
  "initial_world = \<lparr>isFanOn = False, server_args = [], routes = [], effects = []\<rparr>"

text \<open>
  \<open>server.hasArg(name)\<close> and \<open>server.arg(name)\<close>: the first argument of that
  name, the empty string when there is none.
\<close>

definition hasArg :: "string \<Rightarrow> world \<Rightarrow> bool" where
  "hasArg name w = (map_of (server_args w) name \<noteq> None)"

definition arg :: "string \<Rightarrow> world \<Rightarrow> string" where
  "arg name w = (case map_of (server_args w) name of None \<Rightarrow> [] | Some v \<Rightarrow> v)"

text \<open>\<open>server.on(uri, method, fn)\<close> appends an entry to the handler table.\<close>

definition server_on :: "string \<Rightarrow> HTTPMethod \<Rightarrow> handler \<Rightarrow> world \<Rightarrow> world" where
  "server_on uri m h w = emit (ServerOn uri m h) (w\<lparr>routes := routes w @ [(uri, m, h)]\<rparr>)"

subsection \<open>The handlers\<close>

definition sendIRSignal :: "32 word \<Rightarrow> 8 word \<Rightarrow> world \<Rightarrow> world" where
  "sendIRSignal code bits w =
     (let w = emit (SerialPrintf
                ''Sending IR Signal -> Protocol: MIDEA, Code: 0x%06X, Bits: %d\<newline>''
                [ArgU32 code, ArgU8 bits]) w;
          w = emit (IrSend MIDEA24 code bits) w;
          w = emit (SerialPrintln ''Signal sent successfully.'') w
      in w)"

text \<open>The first raw literal of \<open>handleRoot\<close>: the page up to its heading.\<close>

definition html_head :: string where
  \<open>html_head =
     ''\<newline>'' @
     ''<!DOCTYPE html>\<newline>'' @
     ''<html>\<newline>'' @
     ''<head>\<newline>'' @
     ''  <meta charset='utf-8'>\<newline>'' @
     ''  <meta name='viewport' content='width=device-width,initial-scale=1'>\<newline>'' @
     ''  <title>ESP8266 State Remote</title>\<newline>'' @
     ''  <style>\<newline>'' @
     ''    body { font-family: Arial, sans-serif; text-align: center; margin-top: 50px; background-color: #f4f4f4; }\<newline>'' @
     ''    h2, h3 { color: #333; }\<newline>'' @
     ''    .container { border: 1px solid #ccc; background-color: #fff; padding: 20px; margin: 20px auto; max-width: 400px; border-radius: 8px; box-shadow: 0 2px 4px rgba(0,0,0,0.1); }\<newline>'' @
     ''    button { padding: 12px 24px; font-size: 18px; margin: 5px; cursor: pointer; border: none; border-radius: 5px; color: white; }\<newline>'' @
     ''    .btn-main { background-color: #28a745; }\<newline>'' @
     ''    .btn-main.off { background-color: #dc3545; }\<newline>'' @
     ''    .btn-sync { background-color: #ffc107; color: #333; font-size: 14px; padding: 8px 16px;}\<newline>'' @
     ''  </style>\<newline>'' @
     ''</head>\<newline>'' @
     ''<body>\<newline>'' @
     ''  <h2>ESP8266 Midea IR Remote</h2>''\<close>

text \<open>The static power-control section.\<close>

definition html_power_control :: string where
  \<open>html_power_control =
     ''\<newline>'' @
     ''  <div class="container">\<newline>'' @
     ''    <h3>Power Control</h3>\<newline>'' @
     ''    <form action='/send_add_power' method='post' style='display:inline;'>\<newline>'' @
     ''      <button type='submit'>Increase Power</button>\<newline>'' @
     ''    </form>\<newline>'' @
     ''    <form action='/send_lower_power' method='post' style='display:inline;'>\<newline>'' @
     ''      <button type='submit'>Decrease Power</button>\<newline>'' @
     ''    </form>\<newline>'' @
     ''  </div>''\<close>

text \<open>The static manual-sync section.\<close>

definition html_manual_sync :: string where
  \<open>html_manual_sync =
     ''\<newline>'' @
     ''  <div class="container">\<newline>'' @
     ''    <h3>Manual Sync</h3>\<newline>'' @
     ''    <p>If the state above is wrong, correct it here. This will NOT send an IR signal.</p>\<newline>'' @
     ''    <form action='/set_state' method='post' style='display:inline;'>\<newline>'' @
     ''      <button type='submit' name='state' value='on' class='btn-sync'>Set state to ON</button>\<newline>'' @
     ''    </form>\<newline>'' @
     ''    <form action='/set_state' method='post' style='display:inline;'>\<newline>'' @
     ''      <button type='submit' name='state' value='off' class='btn-sync'>Set state to OFF</button>\<newline>'' @
     ''    </form>\<newline>'' @
     ''  </div>''\<close>

definition handleRoot :: "world \<Rightarrow> world" where
  "handleRoot w =
     (let html = html_head;
          html = html @ ''<div class='container'>'';
          html = html @ ''<h3>Main Control</h3>'';
          html = html @ ''<p>Current State: <b>'';
          html = html @ (if isFanOn w then ''ON'' else ''OFF'');
          html = html @ ''</b></p>'';
          html = html @ ''<form action='/toggle' method='post'>'';
          html = (if isFanOn w
                  then html @ ''<button type='submit' class='btn-main off'>Turn OFF</button>''
                  else html @ ''<button type='submit' class='btn-main'>Turn ON</button>'');
          html = html @ ''</form></div>'';
          html = html @ html_power_control;
          html = html @ html_manual_sync;
          html = html @ ''</body></html>''
      in emit (ServerSend 200 ''text/html'' html) w)"

definition handleToggle :: "world \<Rightarrow> world" where
  "handleToggle w =
     (let w = sendIRSignal IR_CODE_TOGGLE_FAN IR_BITS w;
          w = w\<lparr>isFanOn := \<not> isFanOn w\<rparr>;
          w = emit (SerialPrintf ''New fan state: %s\<newline>''
                [ArgStr (if isFanOn w then ''ON'' else ''OFF'')]) w;
          w = emit (ServerSendHeader ''Location'' ''/'') w
      in emit (ServerSendCode 303) w)"

definition handleSetState :: "world \<Rightarrow> world" where
  "handleSetState w =
     (let w = (if hasArg ''state'' w
               then (let stateArg = arg ''state'' w;
                         w = (if stateArg = ''on'' then w\<lparr>isFanOn := True\<rparr>
                              else if stateArg = ''off'' then w\<lparr>isFanOn := False\<rparr>
                              else w)
                     in emit (SerialPrintf ''State manually synced to: %s\<newline>''
                          [ArgStr (if isFanOn w then ''ON'' else ''OFF'')]) w)
               else w);
          w = emit (ServerSendHeader ''Location'' ''/'') w
      in emit (ServerSendCode 303) w)"

definition handleSendAddPower :: "world \<Rightarrow> world" where
  "handleSendAddPower w =
     (let w = sendIRSignal IR_CODE_ADD_POWER IR_BITS w;
          w = emit (ServerSendHeader ''Location'' ''/'') w
      in emit (ServerSendCode 303) w)"

definition handleSendLowerPower :: "world \<Rightarrow> world" where
  "handleSendLowerPower w =
     (let w = sendIRSignal IR_CODE_LOWER_POWER IR_BITS w;
          w = emit (ServerSendHeader ''Location'' ''/'') w
      in emit (ServerSendCode 303) w)"

text \<open>Calling through a function pointer of the handler table.\<close>

fun call_handler :: "handler \<Rightarrow> world \<Rightarrow> world" where
  "call_handler HandleRoot w = handleRoot w"
| "call_handler HandleToggle w = handleToggle w"
| "call_handler HandleSetState w = handleSetState w"
| "call_handler HandleSendAddPower w = handleSendAddPower w"
| "call_handler HandleSendLowerPower w = handleSendLowerPower w"

subsection \<open>\<open>setup\<close> and \<open>loop\<close>\<close>

text \<open>
  The loop \<open>while (WiFi.status() != WL_CONNECTED) { delay(500); Serial.print("."); }\<close>
  reads a status the sketch does not control. The list holds the successive
  results of \<open>WiFi.status()\<close>; the loop leaves at the first \<open>WL_CONNECTED\<close>, and
  a list without one stands for a loop that has not left yet: the result is
  \<open>None\<close>.
\<close>

fun wait_connected :: "wl_status_t list \<Rightarrow> world \<Rightarrow> world option" where
  "wait_connected [] w = None"
| "wait_connected (s # ss) w =
     (if s \<noteq> WL_CONNECTED
      then wait_connected ss (emit (SerialPrint ''.'') (emit (Delay 500) w))
      else Some w)"

text \<open>The five \<open>server.on\<close> calls of \<open>setup\<close>, in their order.\<close>

definition register_routes :: "world \<Rightarrow> world" where
  "register_routes w =
     (let w = server_on ''/'' HTTP_GET HandleRoot w;
          w = server_on ''/toggle'' HTTP_POST HandleToggle w;
          w = server_on ''/set_state'' HTTP_POST HandleSetState w;
          w = server_on ''/send_add_power'' HTTP_POST HandleSendAddPower w;
          w = server_on ''/send_lower_power'' HTTP_POST HandleSendLowerPower w
      in w)"

definition setup_sketch :: "wl_status_t list \<Rightarrow> world \<Rightarrow> world option" where
  "setup_sketch polls w =
     (let w = emit (SerialBegin 115200) w;
          w = emit (Delay 100) w;
          w = emit (SerialPrintln ''\<newline>Starting ESP8266 State-aware IR Remote...'') w;
          w = emit (IrBegin kIrLedPin) w;
          w = emit (WiFiBegin ssid password) w;
          w = emit (SerialPrint ''Connecting to WiFi'') w
      in case wait_connected polls w of
           None \<Rightarrow> None
         | Some w \<Rightarrow>
             (let w = emit (SerialPrintln ''\<newline>WiFi connected!'') w;
                  w = emit (SerialPrint ''IP Address: http://'') w;
                  w = emit SerialPrintlnLocalIP w;
                  w = register_routes w;
                  w = emit ServerBegin w;
                  w = emit (SerialPrintln ''HTTP server started.'') w
              in Some w))"

text \<open>
  \<open>loop\<close> is the single call \<open>server.handleClient()\<close>. Which handler the library
  picks for a request is the library's business; what the sketch sees of one
  call is either nothing (no client, or no handler of the table chosen) or one
  handler of the table run on the request's arguments.
\<close>

definition loop :: "(handler \<times> (string \<times> string) list) option \<Rightarrow> world \<Rightarrow> world" where
  "loop client w =
     (case client of
        None \<Rightarrow> w
      | Some (h, args) \<Rightarrow> call_handler h (w\<lparr>server_args := args\<rparr>))"

fun run :: "(handler \<times> (string \<times> string) list) option list \<Rightarrow> world \<Rightarrow> world" where
  "run [] w = w"
| "run (c # cs) w = run cs (loop c w)"

subsection \<open>Reading the record of effects\<close>

text \<open>The infrared transmissions among a list of events, oldest first.\<close>

fun ir_sends :: "event list \<Rightarrow> (decode_type_t \<times> 32 word \<times> 8 word) list" where
  "ir_sends [] = []"
| "ir_sends (IrSend p c b # es) = (p, c, b) # ir_sends es"
| "ir_sends (e # es) = ir_sends es"

text \<open>The events a step added: those of \<open>w'\<close> beyond the ones \<open>w\<close> already had.\<close>

definition new_effects :: "world \<Rightarrow> world \<Rightarrow> event list" where
  "new_effects w w' = drop (length (effects w)) (effects w')"

text \<open>
  A list of events ends in the redirect to the root page: its last two are
  \<open>server.sendHeader("Location", "/")\<close> and then \<open>server.send(303)\<close>.
\<close>

definition ends_with_redirect :: "event list \<Rightarrow> bool" where
  "ends_with_redirect es =
     (take 2 (rev es) = [ServerSendCode 303, ServerSendHeader ''Location'' ''/''])"

text \<open>
  The whole program as the Arduino core runs it: \<open>setup\<close> once on the freshly
  constructed globals, then \<open>loop\<close> again and again; \<open>cs\<close> lists what each
  successive call of \<open>loop\<close> finds.
\<close>

definition sketch ::
  "wl_status_t list \<Rightarrow> (handler \<times> (string \<times> string) list) option list \<Rightarrow> world option" where
  "sketch polls cs = map_option (run cs) (setup_sketch polls initial_world)"

section \<open>Basic facts\<close>

lemma emit_simps:
  "effects (emit e w) = effects w @ [e]"
  "isFanOn (emit e w) = isFanOn w"
  "server_args (emit e w) = server_args w"
  "routes (emit e w) = routes w"
  by (simp_all add: emit_def)

lemma hasArg_emit: "hasArg n (emit e w) = hasArg n w"
  by (simp add: hasArg_def emit_simps)

lemma arg_emit: "arg n (emit e w) = arg n w"
  by (simp add: arg_def emit_simps)

lemma ir_sends_append: "ir_sends (xs @ ys) = ir_sends xs @ ir_sends ys"
  by (induction xs rule: ir_sends.induct) simp_all

lemma sendIRSignal_effects:
  "effects (sendIRSignal code bits w) =
     effects w @
     [SerialPrintf ''Sending IR Signal -> Protocol: MIDEA, Code: 0x%06X, Bits: %d\<newline>''
        [ArgU32 code, ArgU8 bits],
      IrSend MIDEA24 code bits,
      SerialPrintln ''Signal sent successfully.'']"
  by (simp add: sendIRSignal_def Let_def emit_simps)

lemma sendIRSignal_frame:
  "isFanOn (sendIRSignal code bits w) = isFanOn w"
  "server_args (sendIRSignal code bits w) = server_args w"
  "routes (sendIRSignal code bits w) = routes w"
  by (simp_all add: sendIRSignal_def Let_def emit_simps)

lemma handleToggle_effects:
  "effects (handleToggle w) =
     effects w @
     [SerialPrintf ''Sending IR Signal -> Protocol: MIDEA, Code: 0x%06X, Bits: %d\<newline>''
        [ArgU32 IR_CODE_TOGGLE_FAN, ArgU8 IR_BITS],
      IrSend MIDEA24 IR_CODE_TOGGLE_FAN IR_BITS,
      SerialPrintln ''Signal sent successfully.'',
      SerialPrintf ''New fan state: %s\<newline>''
        [ArgStr (if isFanOn w then ''OFF'' else ''ON'')],
      ServerSendHeader ''Location'' ''/'',
      ServerSendCode 303]"
  by (simp add: handleToggle_def Let_def emit_simps sendIRSignal_effects sendIRSignal_frame)

lemma handleToggle_isFanOn: "isFanOn (handleToggle w) = (\<not> isFanOn w)"
  by (simp add: handleToggle_def Let_def emit_simps sendIRSignal_frame)

lemma handleSendAddPower_effects:
  "effects (handleSendAddPower w) =
     effects w @
     [SerialPrintf ''Sending IR Signal -> Protocol: MIDEA, Code: 0x%06X, Bits: %d\<newline>''
        [ArgU32 IR_CODE_ADD_POWER, ArgU8 IR_BITS],
      IrSend MIDEA24 IR_CODE_ADD_POWER IR_BITS,
      SerialPrintln ''Signal sent successfully.'',
      ServerSendHeader ''Location'' ''/'',
      ServerSendCode 303]"
  by (simp add: handleSendAddPower_def Let_def emit_simps sendIRSignal_effects)

lemma handleSendLowerPower_effects:
  "effects (handleSendLowerPower w) =
     effects w @
     [SerialPrintf ''Sending IR Signal -> Protocol: MIDEA, Code: 0x%06X, Bits: %d\<newline>''
        [ArgU32 IR_CODE_LOWER_POWER, ArgU8 IR_BITS],
      IrSend MIDEA24 IR_CODE_LOWER_POWER IR_BITS,
      SerialPrintln ''Signal sent successfully.'',
      ServerSendHeader ''Location'' ''/'',
      ServerSendCode 303]"
  by (simp add: handleSendLowerPower_def Let_def emit_simps sendIRSignal_effects)

lemma handleSetState_effects:
  "effects (handleSetState w) =
     effects w @
     (if hasArg ''state'' w
      then [SerialPrintf ''State manually synced to: %s\<newline>''
              [ArgStr (if isFanOn (handleSetState w) then ''ON'' else ''OFF'')]]
      else []) @
     [ServerSendHeader ''Location'' ''/'', ServerSendCode 303]"
  by (simp add: handleSetState_def Let_def emit_simps)

lemma handleSetState_isFanOn:
  "isFanOn (handleSetState w) =
     (if hasArg ''state'' w \<and> arg ''state'' w = ''on'' then True
      else if hasArg ''state'' w \<and> arg ''state'' w = ''off'' then False
      else isFanOn w)"
  by (simp add: handleSetState_def Let_def emit_simps)

lemma handleSetState_args: "server_args (handleSetState w) = server_args w"
  by (simp add: handleSetState_def Let_def emit_simps)

lemma handleRoot_isFanOn: "isFanOn (handleRoot w) = isFanOn w"
  by (simp add: handleRoot_def Let_def emit_simps)

lemma handleRoot_effects:
  "\<exists>html. effects (handleRoot w) = effects w @ [ServerSend 200 ''text/html'' html]"
  by (simp add: handleRoot_def Let_def emit_simps)

lemma new_effects_append: "effects w' = effects w @ es \<Longrightarrow> new_effects w w' = es"
  by (simp add: new_effects_def)

lemma handleSendAddPower_isFanOn: "isFanOn (handleSendAddPower w) = isFanOn w"
  by (simp add: handleSendAddPower_def Let_def emit_simps sendIRSignal_frame)

lemma handleSendLowerPower_isFanOn: "isFanOn (handleSendLowerPower w) = isFanOn w"
  by (simp add: handleSendLowerPower_def Let_def emit_simps sendIRSignal_frame)

lemma new_effects_handleToggle:
  "new_effects w (handleToggle w) =
     [SerialPrintf ''Sending IR Signal -> Protocol: MIDEA, Code: 0x%06X, Bits: %d\<newline>''
        [ArgU32 IR_CODE_TOGGLE_FAN, ArgU8 IR_BITS],
      IrSend MIDEA24 IR_CODE_TOGGLE_FAN IR_BITS,
      SerialPrintln ''Signal sent successfully.'',
      SerialPrintf ''New fan state: %s\<newline>''
        [ArgStr (if isFanOn w then ''OFF'' else ''ON'')],
      ServerSendHeader ''Location'' ''/'',
      ServerSendCode 303]"
  by (rule new_effects_append) (rule handleToggle_effects)

lemma new_effects_handleSendAddPower:
  "new_effects w (handleSendAddPower w) =
     [SerialPrintf ''Sending IR Signal -> Protocol: MIDEA, Code: 0x%06X, Bits: %d\<newline>''
        [ArgU32 IR_CODE_ADD_POWER, ArgU8 IR_BITS],
      IrSend MIDEA24 IR_CODE_ADD_POWER IR_BITS,
      SerialPrintln ''Signal sent successfully.'',
      ServerSendHeader ''Location'' ''/'',
      ServerSendCode 303]"
  by (rule new_effects_append) (rule handleSendAddPower_effects)

lemma new_effects_handleSendLowerPower:
  "new_effects w (handleSendLowerPower w) =
     [SerialPrintf ''Sending IR Signal -> Protocol: MIDEA, Code: 0x%06X, Bits: %d\<newline>''
        [ArgU32 IR_CODE_LOWER_POWER, ArgU8 IR_BITS],
      IrSend MIDEA24 IR_CODE_LOWER_POWER IR_BITS,
      SerialPrintln ''Signal sent successfully.'',
      ServerSendHeader ''Location'' ''/'',
      ServerSendCode 303]"
  by (rule new_effects_append) (rule handleSendLowerPower_effects)

lemma new_effects_handleSetState:
  "new_effects w (handleSetState w) =
     (if hasArg ''state'' w
      then [SerialPrintf ''State manually synced to: %s\<newline>''
              [ArgStr (if isFanOn (handleSetState w) then ''ON'' else ''OFF'')]]
      else []) @
     [ServerSendHeader ''Location'' ''/'', ServerSendCode 303]"
  by (rule new_effects_append) (rule handleSetState_effects)

lemma new_effects_handleRoot:
  "\<exists>html. new_effects w (handleRoot w) = [ServerSend 200 ''text/html'' html]"
proof -
  obtain html where "effects (handleRoot w) = effects w @ [ServerSend 200 ''text/html'' html]"
    using handleRoot_effects by blast
  then have "new_effects w (handleRoot w) = [ServerSend 200 ''text/html'' html]"
    by (rule new_effects_append)
  then show ?thesis ..
qed

lemma new_effects_same: "new_effects w w = []"
  by (simp add: new_effects_def)

lemma registered:
  "routes (register_routes w) =
     routes w @
     [(''/'', HTTP_GET, HandleRoot),
      (''/toggle'', HTTP_POST, HandleToggle),
      (''/set_state'', HTTP_POST, HandleSetState),
      (''/send_add_power'', HTTP_POST, HandleSendAddPower),
      (''/send_lower_power'', HTTP_POST, HandleSendLowerPower)]"
  by (simp add: register_routes_def server_on_def Let_def emit_simps)

section \<open>The toggle handler\<close>

text \<open>
  Claim C1. Handling a POST to \<open>/toggle\<close> sends exactly one IR transmission,
  the fixed 24-bit toggle code \<open>0x80C0C0\<close>, and flips \<open>isFanOn\<close> from its
  current value to its negation. The handler registered for POST \<open>/toggle\<close> is
  \<open>handleToggle\<close>; the transmissions among the events it adds are the single
  triple (MIDEA24, 0x80C0C0, 24), whatever the world it starts from.
\<close>

theorem handleToggle_one_send_and_flip:
  "(''/toggle'', HTTP_POST, HandleToggle) \<in> set (routes (register_routes w0))
   \<and> call_handler HandleToggle w = handleToggle w
   \<and> ir_sends (new_effects w (handleToggle w)) = [(MIDEA24, 0x80C0C0, 24)]
   \<and> IR_CODE_TOGGLE_FAN = 0x80C0C0
   \<and> isFanOn (handleToggle w) = (\<not> isFanOn w)"
  by (simp add: registered new_effects_handleToggle handleToggle_isFanOn
      IR_CODE_TOGGLE_FAN_def IR_BITS_def)

section \<open>Redirects\<close>

lemma ir_sends_setState: "ir_sends (new_effects w (handleSetState w)) = []"
  by (simp add: new_effects_handleSetState)

lemma ir_sends_root: "ir_sends (new_effects w (handleRoot w)) = []"
proof -
  obtain html where "new_effects w (handleRoot w) = [ServerSend 200 ''text/html'' html]"
    using new_effects_handleRoot by blast
  then show ?thesis by simp
qed

text \<open>
  Claim C2, as stated: for every one of the five registered routes the handler
  ends by issuing the redirect to the root page. The handler of \<open>GET /\<close> does
  not: started on the initial world it adds one event, the page sent with
  status 200, and the events it adds do not end in the redirect.
\<close>

theorem handleRoot_does_not_redirect:
  "\<not> ends_with_redirect (new_effects initial_world (call_handler HandleRoot initial_world))"
proof -
  obtain html where
    "new_effects initial_world (handleRoot initial_world) = [ServerSend 200 ''text/html'' html]"
    using new_effects_handleRoot by blast
  then show ?thesis by (simp add: ends_with_redirect_def)
qed

text \<open>
  Claim C2, amended. For each of the four POST routes the handler ends by
  issuing the redirect to the root page (\<open>Location: /\<close>, then status 303), after
  at most one IR transmission; the handler of \<open>GET /\<close> issues no redirect: it
  transmits nothing and answers with status 200 and the page as \<open>text/html\<close>.
\<close>

theorem post_handlers_redirect:
  "ends_with_redirect (new_effects w (handleToggle w))
   \<and> ends_with_redirect (new_effects w (handleSetState w))
   \<and> ends_with_redirect (new_effects w (handleSendAddPower w))
   \<and> ends_with_redirect (new_effects w (handleSendLowerPower w))
   \<and> length (ir_sends (new_effects w (call_handler h w))) \<le> 1
   \<and> (\<exists>html. new_effects w (handleRoot w) = [ServerSend 200 ''text/html'' html])
   \<and> ir_sends (new_effects w (handleRoot w)) = []"
proof -
  have "length (ir_sends (new_effects w (call_handler h w))) \<le> 1"
    by (cases h)
      (simp_all add: ir_sends_root ir_sends_setState new_effects_handleToggle
        new_effects_handleSendAddPower new_effects_handleSendLowerPower)
  moreover have "ends_with_redirect (new_effects w (handleSetState w))"
    by (simp add: new_effects_handleSetState ends_with_redirect_def)
  ultimately show ?thesis
    by (simp add: ends_with_redirect_def new_effects_handleToggle
        new_effects_handleSendAddPower new_effects_handleSendLowerPower
        new_effects_handleRoot ir_sends_root)
qed

section \<open>Manual sync\<close>

text \<open>
  Claim C3. A POST to \<open>/set_state\<close> whose \<open>state\<close> argument is absent, or whose
  value is neither \<open>on\<close> nor \<open>off\<close>, is ignored: \<open>isFanOn\<close> is unchanged and the
  handler still answers with the redirect to the root page.
\<close>

theorem handleSetState_ignores_malformed:
  assumes "\<not> hasArg ''state'' w \<or> (arg ''state'' w \<noteq> ''on'' \<and> arg ''state'' w \<noteq> ''off'')"
  shows "isFanOn (handleSetState w) = isFanOn w
         \<and> ends_with_redirect (new_effects w (handleSetState w))"
proof
  from assms show "isFanOn (handleSetState w) = isFanOn w"
    by (auto simp: handleSetState_isFanOn)
  show "ends_with_redirect (new_effects w (handleSetState w))"
    by (simp add: new_effects_handleSetState ends_with_redirect_def)
qed

text \<open>
  The theorem at three requests, each with the fan believed on: no argument at
  all, a \<open>state\<close> of the wrong case, and an argument of another name.
\<close>

theorem handleSetState_ignores_malformed_witness:
  "\<not> hasArg ''state'' (initial_world\<lparr>isFanOn := True\<rparr>)
   \<and> isFanOn (handleSetState (initial_world\<lparr>isFanOn := True\<rparr>))
   \<and> ends_with_redirect
        (new_effects (initial_world\<lparr>isFanOn := True\<rparr>)
          (handleSetState (initial_world\<lparr>isFanOn := True\<rparr>)))
   \<and> hasArg ''state'' (initial_world\<lparr>isFanOn := True, server_args := [(''state'', ''OFF'')]\<rparr>)
   \<and> arg ''state'' (initial_world\<lparr>isFanOn := True, server_args := [(''state'', ''OFF'')]\<rparr>)
        = ''OFF''
   \<and> isFanOn (handleSetState
        (initial_world\<lparr>isFanOn := True, server_args := [(''state'', ''OFF'')]\<rparr>))
   \<and> \<not> hasArg ''state'' (initial_world\<lparr>isFanOn := True, server_args := [(''power'', ''off'')]\<rparr>)
   \<and> isFanOn (handleSetState
        (initial_world\<lparr>isFanOn := True, server_args := [(''power'', ''off'')]\<rparr>))"
  using
    handleSetState_ignores_malformed [of "initial_world\<lparr>isFanOn := True\<rparr>"]
    handleSetState_ignores_malformed
      [of "initial_world\<lparr>isFanOn := True, server_args := [(''state'', ''OFF'')]\<rparr>"]
    handleSetState_ignores_malformed
      [of "initial_world\<lparr>isFanOn := True, server_args := [(''power'', ''off'')]\<rparr>"]
  by (simp add: hasArg_def arg_def initial_world_def)

section \<open>Which handlers touch the state\<close>

text \<open>
  Claim C4. Only the toggle and manual-sync handlers ever mutate the state
  boolean: for every starting value of \<open>isFanOn\<close>, \<open>handleRoot\<close>,
  \<open>handleSendAddPower\<close> and \<open>handleSendLowerPower\<close> leave it unchanged.
\<close>

theorem other_handlers_keep_isFanOn:
  "isFanOn (handleRoot w) = isFanOn w
   \<and> isFanOn (handleSendAddPower w) = isFanOn w
   \<and> isFanOn (handleSendLowerPower w) = isFanOn w"
  by (simp add: handleRoot_isFanOn handleSendAddPower_isFanOn handleSendLowerPower_isFanOn)

section \<open>Infrared transmissions\<close>

lemma new_effects_sendIRSignal:
  "new_effects w (sendIRSignal code bits w) =
     [SerialPrintf ''Sending IR Signal -> Protocol: MIDEA, Code: 0x%06X, Bits: %d\<newline>''
        [ArgU32 code, ArgU8 bits],
      IrSend MIDEA24 code bits,
      SerialPrintln ''Signal sent successfully.'']"
  by (rule new_effects_append) (rule sendIRSignal_effects)

lemma ir_sends_handlers:
  "ir_sends (effects (handleRoot w)) = ir_sends (effects w)"
  "ir_sends (effects (handleToggle w)) = ir_sends (effects w) @ [(MIDEA24, 0x80C0C0, 24)]"
  "ir_sends (effects (handleSetState w)) = ir_sends (effects w)"
  "ir_sends (effects (handleSendAddPower w)) = ir_sends (effects w) @ [(MIDEA24, 0x80B0B0, 24)]"
  "ir_sends (effects (handleSendLowerPower w)) = ir_sends (effects w) @ [(MIDEA24, 0x808888, 24)]"
proof -
  obtain html where "effects (handleRoot w) = effects w @ [ServerSend 200 ''text/html'' html]"
    using handleRoot_effects by blast
  then show "ir_sends (effects (handleRoot w)) = ir_sends (effects w)"
    by (simp add: ir_sends_append)
  show "ir_sends (effects (handleToggle w)) = ir_sends (effects w) @ [(MIDEA24, 0x80C0C0, 24)]"
    by (simp add: handleToggle_effects ir_sends_append IR_CODE_TOGGLE_FAN_def IR_BITS_def)
  show "ir_sends (effects (handleSetState w)) = ir_sends (effects w)"
    by (simp add: handleSetState_effects ir_sends_append)
  show "ir_sends (effects (handleSendAddPower w)) = ir_sends (effects w) @ [(MIDEA24, 0x80B0B0, 24)]"
    by (simp add: handleSendAddPower_effects ir_sends_append IR_CODE_ADD_POWER_def IR_BITS_def)
  show "ir_sends (effects (handleSendLowerPower w)) = ir_sends (effects w) @ [(MIDEA24, 0x808888, 24)]"
    by (simp add: handleSendLowerPower_effects ir_sends_append IR_CODE_LOWER_POWER_def IR_BITS_def)
qed

lemma ir_sends_loop:
  "set (ir_sends (effects (loop c w))) \<subseteq>
     set (ir_sends (effects w)) \<union>
     {(MIDEA24, 0x80C0C0, 24), (MIDEA24, 0x80B0B0, 24), (MIDEA24, 0x808888, 24)}"
proof (cases c)
  case None
  then show ?thesis by (auto simp: loop_def)
next
  case (Some ha)
  obtain h args where ha: "ha = (h, args)" by (cases ha)
  show ?thesis
    unfolding Some ha by (cases h) (auto simp: loop_def ir_sends_handlers)
qed

lemma ir_sends_run:
  "set (ir_sends (effects (run cs w))) \<subseteq>
     set (ir_sends (effects w)) \<union>
     {(MIDEA24, 0x80C0C0, 24), (MIDEA24, 0x80B0B0, 24), (MIDEA24, 0x808888, 24)}"
proof (induction cs arbitrary: w)
  case Nil
  show ?case by auto
next
  case (Cons c cs)
  have "set (ir_sends (effects (run cs (loop c w)))) \<subseteq>
          set (ir_sends (effects (loop c w))) \<union>
          {(MIDEA24, 0x80C0C0, 24), (MIDEA24, 0x80B0B0, 24), (MIDEA24, 0x808888, 24)}"
    by (rule Cons.IH)
  with ir_sends_loop [of c w] show ?case by auto
qed

lemma wait_connected_frame:
  "wait_connected polls w = Some w' \<Longrightarrow>
     isFanOn w' = isFanOn w \<and> routes w' = routes w
     \<and> ir_sends (effects w') = ir_sends (effects w)"
proof (induction polls arbitrary: w)
  case Nil
  then show ?case by simp
next
  case (Cons s ss)
  show ?case
  proof (cases "s = WL_CONNECTED")
    case True
    with Cons.prems show ?thesis by simp
  next
    case False
    with Cons.prems
    have "wait_connected ss (emit (SerialPrint ''.'') (emit (Delay 500) w)) = Some w'"
      by simp
    from Cons.IH [OF this] show ?thesis
      by (simp add: emit_simps ir_sends_append)
  qed
qed

lemma wait_connected_returns:
  "WL_CONNECTED \<in> set polls \<Longrightarrow> \<exists>w'. wait_connected polls w = Some w'"
  by (induction polls arbitrary: w) auto

lemma register_routes_frame:
  "isFanOn (register_routes w) = isFanOn w"
  "ir_sends (effects (register_routes w)) = ir_sends (effects w)"
  by (simp_all add: register_routes_def server_on_def Let_def emit_simps ir_sends_append)

lemma setup_sketch_frame:
  assumes "setup_sketch polls w = Some w'"
  shows "isFanOn w' = isFanOn w"
    and "ir_sends (effects w') = ir_sends (effects w)"
    and "routes w' =
           routes w @
           [(''/'', HTTP_GET, HandleRoot),
            (''/toggle'', HTTP_POST, HandleToggle),
            (''/set_state'', HTTP_POST, HandleSetState),
            (''/send_add_power'', HTTP_POST, HandleSendAddPower),
            (''/send_lower_power'', HTTP_POST, HandleSendLowerPower)]"
proof -
  define w1 where
    "w1 = emit (SerialPrint ''Connecting to WiFi'')
           (emit (WiFiBegin ssid password)
             (emit (IrBegin kIrLedPin)
               (emit (SerialPrintln ''\<newline>Starting ESP8266 State-aware IR Remote...'')
                 (emit (Delay 100) (emit (SerialBegin 115200) w)))))"
  from assms obtain w2 where w2: "wait_connected polls w1 = Some w2"
    and w': "w' = emit (SerialPrintln ''HTTP server started.'')
                   (emit ServerBegin
                     (register_routes
                       (emit SerialPrintlnLocalIP
                         (emit (SerialPrint ''IP Address: http://'')
                           (emit (SerialPrintln ''\<newline>WiFi connected!'') w2)))))"
    by (auto simp: setup_sketch_def Let_def w1_def split: option.splits)
  have f1: "isFanOn w1 = isFanOn w" "routes w1 = routes w"
    "ir_sends (effects w1) = ir_sends (effects w)"
    by (simp_all add: w1_def emit_simps ir_sends_append)
  from wait_connected_frame [OF w2] f1
  have f2: "isFanOn w2 = isFanOn w" "routes w2 = routes w"
    "ir_sends (effects w2) = ir_sends (effects w)"
    by simp_all
  show "isFanOn w' = isFanOn w"
    by (simp add: w' emit_simps register_routes_frame f2)
  show "ir_sends (effects w') = ir_sends (effects w)"
    by (simp add: w' emit_simps register_routes_frame ir_sends_append f2)
  show "routes w' =
           routes w @
           [(''/'', HTTP_GET, HandleRoot),
            (''/toggle'', HTTP_POST, HandleToggle),
            (''/set_state'', HTTP_POST, HandleSetState),
            (''/send_add_power'', HTTP_POST, HandleSendAddPower),
            (''/send_lower_power'', HTTP_POST, HandleSendLowerPower)]"
    by (simp add: w' emit_simps registered f2)
qed

lemma setup_sketch_returns:
  "WL_CONNECTED \<in> set polls \<Longrightarrow> \<exists>w'. setup_sketch polls w = Some w'"
proof -
  assume c: "WL_CONNECTED \<in> set polls"
  define w1 where
    "w1 = emit (SerialPrint ''Connecting to WiFi'')
           (emit (WiFiBegin ssid password)
             (emit (IrBegin kIrLedPin)
               (emit (SerialPrintln ''\<newline>Starting ESP8266 State-aware IR Remote...'')
                 (emit (Delay 100) (emit (SerialBegin 115200) w)))))"
  from wait_connected_returns [OF c, of w1]
  obtain w2 where "wait_connected polls w1 = Some w2" by blast
  then show ?thesis
    by (simp add: setup_sketch_def Let_def w1_def)
qed

lemma handler_routes:
  "routes (handleRoot w) = routes w"
  "routes (handleToggle w) = routes w"
  "routes (handleSetState w) = routes w"
  "routes (handleSendAddPower w) = routes w"
  "routes (handleSendLowerPower w) = routes w"
  by (simp_all add: handleRoot_def handleToggle_def handleSetState_def handleSendAddPower_def
      handleSendLowerPower_def Let_def emit_simps sendIRSignal_frame)

lemma routes_loop: "routes (loop c w) = routes w"
proof (cases c)
  case None
  then show ?thesis by (simp add: loop_def)
next
  case (Some ha)
  obtain h args where ha: "ha = (h, args)" by (cases ha)
  show ?thesis
    unfolding Some ha by (cases h) (simp_all add: loop_def handler_routes)
qed

lemma routes_run: "routes (run cs w) = routes w"
  by (induction cs arbitrary: w) (simp_all add: routes_loop)

lemma sketch_example:
  "sketch [WL_DISCONNECTED, WL_CONNECTED] cs =
     Some (run cs (the (setup_sketch [WL_DISCONNECTED, WL_CONNECTED] initial_world)))"
  by (simp add: sketch_def setup_sketch_def Let_def)

text \<open>
  Claim C5. Every IR transmission passes a static constant code verbatim to the
  vendor library: \<open>sendIRSignal\<close> forwards its code and bit count unmodified to
  \<open>irsend.send\<close> with protocol MIDEA24, and the only codes ever sent are the
  constants \<open>0x80C0C0\<close>, \<open>0x80B0B0\<close> and \<open>0x808888\<close>, each with 24 bits:
  whatever the calls of \<open>loop\<close> find, they add no other transmission, and the
  whole program, from \<open>setup\<close> on, has made no other.
\<close>

theorem ir_sends_are_the_three_constants:
  "ir_sends (new_effects w (sendIRSignal code bits w)) = [(MIDEA24, code, bits)]
   \<and> set (ir_sends (effects (run cs w))) \<subseteq>
        set (ir_sends (effects w)) \<union>
        {(MIDEA24, 0x80C0C0, 24), (MIDEA24, 0x80B0B0, 24), (MIDEA24, 0x808888, 24)}
   \<and> (sketch polls cs = Some w' \<longrightarrow>
        set (ir_sends (effects w')) \<subseteq>
        {(MIDEA24, 0x80C0C0, 24), (MIDEA24, 0x80B0B0, 24), (MIDEA24, 0x808888, 24)})
   \<and> IR_CODE_TOGGLE_FAN = 0x80C0C0 \<and> IR_CODE_ADD_POWER = 0x80B0B0
   \<and> IR_CODE_LOWER_POWER = 0x808888 \<and> IR_BITS = 24"
proof -
  have "set (ir_sends (effects w')) \<subseteq>
          {(MIDEA24, 0x80C0C0, 24), (MIDEA24, 0x80B0B0, 24), (MIDEA24, 0x808888, 24)}"
    if run: "sketch polls cs = Some w'"
  proof -
    from run obtain w0 where w0: "setup_sketch polls initial_world = Some w0"
      and w': "w' = run cs w0"
      by (auto simp: sketch_def)
    have "ir_sends (effects w0) = []"
      using setup_sketch_frame(2) [OF w0] by (simp add: initial_world_def)
    with ir_sends_run [of cs w0] show ?thesis
      by (simp add: w')
  qed
  then show ?thesis
    using ir_sends_run [of cs w]
    by (simp add: new_effects_sendIRSignal IR_CODE_TOGGLE_FAN_def IR_CODE_ADD_POWER_def
        IR_CODE_LOWER_POWER_def IR_BITS_def)
qed

text \<open>
  The theorem on a run: WiFi connects at the second poll, then six calls of
  \<open>loop\<close> serve every handler once. Three codes have been sent, in the order
  of the requests.
\<close>

theorem ir_sends_are_the_three_constants_witness:
  "sketch [WL_DISCONNECTED, WL_CONNECTED]
     [Some (HandleToggle, []), None, Some (HandleSendAddPower, []),
         Some (HandleSetState, [(''state'', ''on'')]), Some (HandleSendLowerPower, []),
         Some (HandleRoot, [])] \<noteq> None
   \<and> ir_sends (effects (the (sketch [WL_DISCONNECTED, WL_CONNECTED]
        [Some (HandleToggle, []), None, Some (HandleSendAddPower, []),
         Some (HandleSetState, [(''state'', ''on'')]), Some (HandleSendLowerPower, []),
         Some (HandleRoot, [])]))) =
       [(MIDEA24, 0x80C0C0, 24), (MIDEA24, 0x80B0B0, 24), (MIDEA24, 0x808888, 24)]
   \<and> set (ir_sends (effects (the (sketch [WL_DISCONNECTED, WL_CONNECTED]
        [Some (HandleToggle, []), None, Some (HandleSendAddPower, []),
         Some (HandleSetState, [(''state'', ''on'')]), Some (HandleSendLowerPower, []),
         Some (HandleRoot, [])])))) \<subseteq>
       {(MIDEA24, 0x80C0C0, 24), (MIDEA24, 0x80B0B0, 24), (MIDEA24, 0x808888, 24)}"
proof -
  let ?cs = "[Some (HandleToggle, []), None, Some (HandleSendAddPower, []),
         Some (HandleSetState, [(''state'', ''on'')]), Some (HandleSendLowerPower, []),
         Some (HandleRoot, [])]"
  let ?w0 = "the (setup_sketch [WL_DISCONNECTED, WL_CONNECTED] initial_world)"
  have s: "sketch [WL_DISCONNECTED, WL_CONNECTED] ?cs = Some (run ?cs ?w0)"
    by (rule sketch_example)
  have "ir_sends (effects ?w0) = []"
    by (simp add: setup_sketch_def Let_def emit_simps ir_sends_append register_routes_frame
        initial_world_def)
  then have "ir_sends (effects (run ?cs ?w0)) =
      [(MIDEA24, 0x80C0C0, 24), (MIDEA24, 0x80B0B0, 24), (MIDEA24, 0x808888, 24)]"
    by (simp add: loop_def ir_sends_handlers)
  with s ir_sends_are_the_three_constants
    [where polls = "[WL_DISCONNECTED, WL_CONNECTED]" and cs = ?cs and w' = "run ?cs ?w0"]
  show ?thesis by simp
qed

section \<open>The handler table\<close>

text \<open>
  Claim C6. The server registers exactly five fixed routes and no others:
  \<open>/\<close> handled on GET, and \<open>/toggle\<close>, \<open>/set_state\<close>, \<open>/send_add_power\<close>,
  \<open>/send_lower_power\<close> each handled on POST. The five \<open>server.on\<close> calls
  build exactly this table; once WiFi connects, \<open>setup\<close> returns with it, and
  no call of \<open>loop\<close> changes it afterwards.
\<close>

theorem five_routes_registered:
  "routes (register_routes initial_world) =
           [(''/'', HTTP_GET, HandleRoot),
            (''/toggle'', HTTP_POST, HandleToggle),
            (''/set_state'', HTTP_POST, HandleSetState),
            (''/send_add_power'', HTTP_POST, HandleSendAddPower),
            (''/send_lower_power'', HTTP_POST, HandleSendLowerPower)]
   \<and> (WL_CONNECTED \<in> set polls \<longrightarrow>
        (\<exists>w0 w. setup_sketch polls initial_world = Some w0
           \<and> routes w0 =
           [(''/'', HTTP_GET, HandleRoot),
            (''/toggle'', HTTP_POST, HandleToggle),
            (''/set_state'', HTTP_POST, HandleSetState),
            (''/send_add_power'', HTTP_POST, HandleSendAddPower),
            (''/send_lower_power'', HTTP_POST, HandleSendLowerPower)]
           \<and> sketch polls cs = Some w
           \<and> routes w = routes w0))"
proof -
  have "\<exists>w0 w. setup_sketch polls initial_world = Some w0
           \<and> routes w0 =
           [(''/'', HTTP_GET, HandleRoot),
            (''/toggle'', HTTP_POST, HandleToggle),
            (''/set_state'', HTTP_POST, HandleSetState),
            (''/send_add_power'', HTTP_POST, HandleSendAddPower),
            (''/send_lower_power'', HTTP_POST, HandleSendLowerPower)]
           \<and> sketch polls cs = Some w
           \<and> routes w = routes w0"
    if c: "WL_CONNECTED \<in> set polls"
  proof -
    from setup_sketch_returns [OF c, of initial_world]
    obtain w0 where w0: "setup_sketch polls initial_world = Some w0" by blast
    have "routes w0 =
           [(''/'', HTTP_GET, HandleRoot),
            (''/toggle'', HTTP_POST, HandleToggle),
            (''/set_state'', HTTP_POST, HandleSetState),
            (''/send_add_power'', HTTP_POST, HandleSendAddPower),
            (''/send_lower_power'', HTTP_POST, HandleSendLowerPower)]"
      using setup_sketch_frame(3) [OF w0] by (simp add: initial_world_def)
    moreover have "sketch polls cs = Some (run cs w0)"
      by (simp add: sketch_def w0)
    moreover have "routes (run cs w0) = routes w0"
      by (rule routes_run)
    ultimately show ?thesis using w0 by blast
  qed
  moreover have "routes (register_routes initial_world) =
           [(''/'', HTTP_GET, HandleRoot),
            (''/toggle'', HTTP_POST, HandleToggle),
            (''/set_state'', HTTP_POST, HandleSetState),
            (''/send_add_power'', HTTP_POST, HandleSendAddPower),
            (''/send_lower_power'', HTTP_POST, HandleSendLowerPower)]"
    by (simp add: registered initial_world_def)
  ultimately show ?thesis by blast
qed

text \<open>
  The theorem on a run: WiFi connects at the second poll, then three calls of
  \<open>loop\<close>.
\<close>

theorem five_routes_registered_witness:
  "WL_CONNECTED \<in> set [WL_DISCONNECTED, WL_CONNECTED]
   \<and> (\<exists>w0 w. setup_sketch [WL_DISCONNECTED, WL_CONNECTED] initial_world = Some w0
           \<and> routes w0 =
           [(''/'', HTTP_GET, HandleRoot),
            (''/toggle'', HTTP_POST, HandleToggle),
            (''/set_state'', HTTP_POST, HandleSetState),
            (''/send_add_power'', HTTP_POST, HandleSendAddPower),
            (''/send_lower_power'', HTTP_POST, HandleSendLowerPower)]
           \<and> sketch [WL_DISCONNECTED, WL_CONNECTED]
                [Some (HandleToggle, []), None, Some (HandleRoot, [])] = Some w
           \<and> routes w = routes w0)"
proof -
  have "WL_CONNECTED \<in> set [WL_DISCONNECTED, WL_CONNECTED]" by simp
  with five_routes_registered
    [of "[WL_DISCONNECTED, WL_CONNECTED]" "[Some (HandleToggle, []), None, Some (HandleRoot, [])]"]
  show ?thesis by blast
qed

section \<open>The power handlers\<close>

text \<open>
  Claim C7. There is no retry logic: handling a single POST to
  \<open>/send_add_power\<close> or \<open>/send_lower_power\<close> causes exactly one IR
  transmission of the corresponding power code, never zero and never more than
  one; a call of \<open>loop\<close> that finds no request transmits nothing.
\<close>

theorem power_handlers_send_once:
  "(''/send_add_power'', HTTP_POST, HandleSendAddPower) \<in> set (routes (register_routes w0))
   \<and> (''/send_lower_power'', HTTP_POST, HandleSendLowerPower) \<in> set (routes (register_routes w0))
   \<and> ir_sends (new_effects w (call_handler HandleSendAddPower w)) = [(MIDEA24, 0x80B0B0, 24)]
   \<and> ir_sends (new_effects w (call_handler HandleSendLowerPower w)) = [(MIDEA24, 0x808888, 24)]
   \<and> IR_CODE_ADD_POWER = 0x80B0B0 \<and> IR_CODE_LOWER_POWER = 0x808888
   \<and> ir_sends (new_effects w (loop None w)) = []"
  by (simp add: registered new_effects_handleSendAddPower new_effects_handleSendLowerPower
      IR_CODE_ADD_POWER_def IR_CODE_LOWER_POWER_def IR_BITS_def loop_def new_effects_same)

section \<open>The page at startup\<close>

lemma root_page:
  "new_effects w (handleRoot w) =
     [ServerSend 200 ''text/html''
        (html_head @
         ''<div class='container'><h3>Main Control</h3><p>Current State: <b>'' @
         (if isFanOn w then ''ON'' else ''OFF'') @
         ''</b></p><form action='/toggle' method='post'>'' @
         (if isFanOn w
          then ''<button type='submit' class='btn-main off'>Turn OFF</button>''
          else ''<button type='submit' class='btn-main'>Turn ON</button>'') @
         ''</form></div>'' @
         html_power_control @ html_manual_sync @ ''</body></html>'')]"
  by (simp add: handleRoot_def Let_def new_effects_def emit_simps)

text \<open>
  Claim C8. At startup the assumed fan state is OFF: \<open>isFanOn\<close> is initialised
  to false, so before any request is handled the root page reports state
  \<open>OFF\<close> and offers the \<open>Turn ON\<close> button. This holds of the freshly
  constructed globals and of the world \<open>setup\<close> returns.
\<close>

theorem starts_off:
  "isFanOn initial_world = False
   \<and> new_effects initial_world (handleRoot initial_world) =
       [ServerSend 200 ''text/html''
          (html_head @
            ''<div class='container'><h3>Main Control</h3><p>Current State: <b>OFF</b></p>'' @
            ''<form action='/toggle' method='post'>'' @
            ''<button type='submit' class='btn-main'>Turn ON</button>'' @
            ''</form></div>'' @
            html_power_control @ html_manual_sync @ ''</body></html>'')]
   \<and> (setup_sketch polls initial_world = Some w \<longrightarrow>
        isFanOn w = False
        \<and> new_effects w (handleRoot w) =
            [ServerSend 200 ''text/html''
               (html_head @
            ''<div class='container'><h3>Main Control</h3><p>Current State: <b>OFF</b></p>'' @
            ''<form action='/toggle' method='post'>'' @
            ''<button type='submit' class='btn-main'>Turn ON</button>'' @
            ''</form></div>'' @
            html_power_control @ html_manual_sync @ ''</body></html>'')])"
proof -
  have i: "isFanOn initial_world = False"
    by (simp add: initial_world_def)
  have "isFanOn w = False" if "setup_sketch polls initial_world = Some w"
    using setup_sketch_frame(1) [OF that] i by simp
  then show ?thesis
    using i by (simp add: root_page)
qed

theorem starts_off_witness:
  "setup_sketch [WL_DISCONNECTED, WL_CONNECTED] initial_world \<noteq> None
   \<and> isFanOn (the (setup_sketch [WL_DISCONNECTED, WL_CONNECTED] initial_world)) = False
   \<and> new_effects (the (setup_sketch [WL_DISCONNECTED, WL_CONNECTED] initial_world))
        (handleRoot (the (setup_sketch [WL_DISCONNECTED, WL_CONNECTED] initial_world))) =
       [ServerSend 200 ''text/html''
          (html_head @
            ''<div class='container'><h3>Main Control</h3><p>Current State: <b>OFF</b></p>'' @
            ''<form action='/toggle' method='post'>'' @
            ''<button type='submit' class='btn-main'>Turn ON</button>'' @
            ''</form></div>'' @
            html_power_control @ html_manual_sync @ ''</body></html>'')]"
proof -
  define w where "w = the (setup_sketch [WL_DISCONNECTED, WL_CONNECTED] initial_world)"
  have e: "setup_sketch [WL_DISCONNECTED, WL_CONNECTED] initial_world = Some w"
    by (simp add: w_def setup_sketch_def Let_def)
  from e starts_off [of "[WL_DISCONNECTED, WL_CONNECTED]" w]
  have "isFanOn w = False
        \<and> new_effects w (handleRoot w) =
            [ServerSend 200 ''text/html''
               (html_head @
            ''<div class='container'><h3>Main Control</h3><p>Current State: <b>OFF</b></p>'' @
            ''<form action='/toggle' method='post'>'' @
            ''<button type='submit' class='btn-main'>Turn ON</button>'' @
            ''</form></div>'' @
            html_power_control @ html_manual_sync @ ''</body></html>'')]"
    by blast
  moreover from e have "setup_sketch [WL_DISCONNECTED, WL_CONNECTED] initial_world \<noteq> None"
    by simp
  ultimately show ?thesis
    unfolding w_def by (intro conjI) (erule conjunct1 conjunct2 | assumption)+
qed

section \<open>Manual sync sends nothing; toggling twice; syncing twice\<close>

text \<open>
  Claim C9. The manual-sync handler never transmits an IR signal: for every
  request to \<open>/set_state\<close>, with or without a \<open>state\<close> argument,
  \<open>handleSetState\<close> performs no call to the IR send function.
\<close>

theorem handleSetState_sends_nothing:
  "ir_sends (new_effects w (handleSetState w)) = []
   \<and> ir_sends (new_effects w (loop (Some (HandleSetState, args)) w)) = []"
proof -
  have "new_effects w (handleSetState (w\<lparr>server_args := args\<rparr>)) =
          new_effects (w\<lparr>server_args := args\<rparr>) (handleSetState (w\<lparr>server_args := args\<rparr>))"
    by (simp add: new_effects_def)
  then show ?thesis
    by (simp add: loop_def ir_sends_setState)
qed

text \<open>
  Claim C10. Toggling is an involution on the tracked state: for every value of
  \<open>isFanOn\<close>, handling \<open>/toggle\<close> twice in succession restores \<open>isFanOn\<close> to
  its original value; and handling \<open>/set_state\<close> with the same \<open>state\<close> value
  twice leaves the same state as handling it once. A \<open>state\<close> of \<open>on\<close> leaves
  true, a \<open>state\<close> of \<open>off\<close> leaves false.
\<close>

theorem toggle_involution_set_state_idempotent:
  "isFanOn (handleToggle (handleToggle w)) = isFanOn w
   \<and> isFanOn (handleSetState (handleSetState w)) = isFanOn (handleSetState w)
   \<and> isFanOn (loop (Some (HandleSetState, args)) (loop (Some (HandleSetState, args)) w)) =
       isFanOn (loop (Some (HandleSetState, args)) w)
   \<and> isFanOn (loop (Some (HandleSetState, [(''state'', ''on'')])) w) = True
   \<and> isFanOn (loop (Some (HandleSetState, [(''state'', ''off'')])) w) = False"
proof -
  have a: "hasArg n (handleSetState v) = hasArg n v" "arg n (handleSetState v) = arg n v"
    for n v
    by (simp_all add: hasArg_def arg_def handleSetState_args)
  have b: "hasArg n (v\<lparr>server_args := args\<rparr>) = (map_of args n \<noteq> None)"
    "arg n (v\<lparr>server_args := args\<rparr>) = (case map_of args n of None \<Rightarrow> [] | Some x \<Rightarrow> x)"
    for n v args
    by (simp_all add: hasArg_def arg_def)
  show ?thesis
    by (simp add: handleToggle_isFanOn handleSetState_isFanOn a b loop_def)
qed

end
